theory Spec2Isabelle
  imports Complex_Main "HOL-Library.Word"
begin

unbundle bit_operations_syntax

section \<open>Data model of the sensor node firmware\<close>

text \<open>
  The firmware is an Arduino sketch for the ESP32. Its C types are modelled as follows:
  \<^item> \<open>uint8_t\<close> is \<open>8 word\<close>, \<open>unsigned long\<close> (32 bits on the ESP32) is \<open>32 word\<close>,
    with wrapping subtraction as the sketch relies on for \<open>millis()\<close>;
  \<^item> \<open>int\<close> and \<open>long\<close> values that stay far inside 32 bits are \<open>int\<close>; the packet
    counter, whose overflow is the subject of a property, is a \<open>32 word\<close> read with \<open>sint\<close>;
  \<^item> a \<open>float\<close> or \<open>double\<close> value is the \<open>real\<close> it denotes, and every arithmetic
    operation and conversion on them is the exact operation followed by the rounding of
    IEEE binary32 or binary64 (\<open>to_float\<close>, \<open>to_double\<close> below). Conversions of integers
    of at most 16 bits to \<open>float\<close> are exact and are written \<open>real_of_int\<close>. A not-a-number
    returned by the DHT driver is \<open>None\<close> of \<open>real option\<close>; the sketch replaces it before
    any arithmetic is done on it.
\<close>

type_synonym u8 = "8 word"
type_synonym u32 = "32 word"

record SensorData =
  timestamp :: u32
  temperature :: real
  humidity :: real
  pm25 :: real
  pm10 :: real
  gasLevel :: int
  smokeLevel :: int
  aqi :: int

section \<open>Binary floating point\<close>

text \<open>Rounding to the nearest integer, a tie going to the even one.\<close>

definition round_even :: "real \<Rightarrow> int" where
  "round_even q =
     (let f = \<lfloor>q\<rfloor>; r = q - real_of_int f
      in if r < 1 / 2 then f else if 1 / 2 < r then f + 1 else if even f then f else f + 1)"

text \<open>
  The exponent of a magnitude \<open>a\<close>: the largest \<open>e\<close> from \<open>e\<close> up to \<open>e + k\<close> with
  \<open>2^e \<le> a\<close>, and the starting exponent when there is none (zero and subnormal numbers).
\<close>

fun exp_search :: "nat \<Rightarrow> int \<Rightarrow> real \<Rightarrow> int" where
  "exp_search 0 e a = e"
| "exp_search (Suc k) e a = (if 2 powi (e + 1) \<le> a then exp_search k (e + 1) a else e)"

text \<open>
  Rounding to the format with \<open>p\<close> significant bits and exponents from \<open>emin\<close> to \<open>emax\<close>:
  to the nearest multiple of the unit in the last place, ties to even. A result of
  magnitude \<open>2^(emax + 1)\<close> stands for infinity: it is larger than every number of the format,
  and the comparisons the sketch makes have on it the outcome they have on infinity.
  Not-a-number does not arise in the sketch's arithmetic, which never subtracts
  infinities or multiplies one by zero.
\<close>

definition fround :: "nat \<Rightarrow> int \<Rightarrow> int \<Rightarrow> real \<Rightarrow> real" where
  "fround p emin emax x =
     (let e = exp_search (nat (emax - emin)) emin \<bar>x\<bar>;
          ulp = 2 powi (e - int p + 1);
          y = real_of_int (round_even (x / ulp)) * ulp
      in if 2 powi (emax + 1) \<le> \<bar>y\<bar> then sgn x * 2 powi (emax + 1) else y)"

definition to_float :: "real \<Rightarrow> real" where
  "to_float x = fround 24 (- 126) 127 x"

definition to_double :: "real \<Rightarrow> real" where
  "to_double x = fround 53 (- 1022) 1023 x"

text \<open>
  A decimal literal of the source is a \<open>double\<close>; stored into a \<open>float\<close> it is rounded
  again. The operators of C on two \<open>float\<close> operands (an \<open>int\<close> operand is converted
  first, exactly for the constants of the sketch) round to \<open>float\<close>; with a \<open>double\<close>
  operand they round to \<open>double\<close>. Each operation rounds on its own: no fused
  multiply-add.
\<close>

definition lit_d :: "real \<Rightarrow> real" where
  "lit_d x = to_double x"

definition lit_f :: "real \<Rightarrow> real" where
  "lit_f x = to_float (to_double x)"

definition f_add :: "real \<Rightarrow> real \<Rightarrow> real" where
  "f_add x y = to_float (x + y)"

definition f_sub :: "real \<Rightarrow> real \<Rightarrow> real" where
  "f_sub x y = to_float (x - y)"

definition f_mul :: "real \<Rightarrow> real \<Rightarrow> real" where
  "f_mul x y = to_float (x * y)"

definition d_add :: "real \<Rightarrow> real \<Rightarrow> real" where
  "d_add x y = to_double (x + y)"

definition d_mul :: "real \<Rightarrow> real \<Rightarrow> real" where
  "d_mul x y = to_double (x * y)"

definition d_div :: "real \<Rightarrow> real \<Rightarrow> real" where
  "d_div x y = to_double (x / y)"

section \<open>The AQI engine\<close>

text \<open>C division of \<open>long\<close> values truncates towards zero.\<close>

definition cdiv :: "int \<Rightarrow> int \<Rightarrow> int" where
  "cdiv a b = sgn a * sgn b * (\<bar>a\<bar> div \<bar>b\<bar>)"

text \<open>
  The Arduino core's \<open>long map(long x, long in_min, long in_max, long out_min, long out_max)\<close>.
  It is a library function, not part of the sketch; this is its reference definition
  \<open>(x - in_min) * (out_max - out_min) / (in_max - in_min) + out_min\<close> on \<open>long\<close>.
\<close>

definition map_arduino :: "int \<Rightarrow> int \<Rightarrow> int \<Rightarrow> int \<Rightarrow> int \<Rightarrow> int" where
  "map_arduino x in_min in_max out_min out_max =
     cdiv ((x - in_min) * (out_max - out_min)) (in_max - in_min) + out_min"

text \<open>Conversion of a \<open>float\<close> to \<open>long\<close> or \<open>int\<close>: the fraction is discarded.\<close>

definition to_long :: "real \<Rightarrow> int" where
  "to_long x = (if 0 \<le> x then \<lfloor>x\<rfloor> else \<lceil>x\<rceil>)"

text \<open>
  Lines 239 to 256 of the sketch: the local \<open>pm25_aqi\<close> of \<open>calculateAQI\<close>. The \<open>float\<close>
  is compared with \<open>double\<close> literals, and \<open>pm25 * 10\<close> is a \<open>float\<close> product.
\<close>

definition pm25_aqi :: "real \<Rightarrow> int" where
  "pm25_aqi p =
     (if p \<le> lit_d 12.0 then map_arduino (to_long (f_mul p 10)) 0 120 0 50
      else if p \<le> lit_d 35.4 then map_arduino (to_long (f_mul p 10)) 121 354 51 100
      else if p \<le> lit_d 55.4 then map_arduino (to_long (f_mul p 10)) 355 554 101 150
      else if p \<le> lit_d 150.4 then map_arduino (to_long (f_mul p 10)) 555 1504 151 200
      else if p \<le> lit_d 250.4 then map_arduino (to_long (f_mul p 10)) 1505 2504 201 300
      else (let a = map_arduino (to_long (f_mul p 10)) 2505 5000 301 500
            in if a > 500 then 500 else a))"

text \<open>Lines 259 to 275: the local \<open>pm10_aqi\<close>; the comparisons are with \<open>int\<close> constants.\<close>

definition pm10_aqi :: "real \<Rightarrow> int" where
  "pm10_aqi p =
     (if p \<le> 54 then map_arduino (to_long p) 0 54 0 50
      else if p \<le> 154 then map_arduino (to_long p) 55 154 51 100
      else if p \<le> 254 then map_arduino (to_long p) 155 254 101 150
      else if p \<le> 354 then map_arduino (to_long p) 255 354 151 200
      else if p \<le> 424 then map_arduino (to_long p) 355 424 201 300
      else (let a = map_arduino (to_long p) 425 604 301 500
            in if a > 500 then 500 else a))"

text \<open>
  Lines 277 to 312. The weighted sum is \<open>double\<close> arithmetic stored into a \<open>float\<close>; the
  factors, the stress term and the final sum are \<open>float\<close> arithmetic, except the division
  by the \<open>double\<close> literal \<open>100.0\<close>. \<open>abs\<close> is the Arduino macro, which keeps the type of its
  argument.
\<close>

definition calculateAQI :: "SensorData \<Rightarrow> SensorData" where
  "calculateAQI d =
     (let tempFactor = (if temperature d > 35 then lit_f 1.1
                        else if temperature d < 0 then lit_f 1.05 else lit_f 1.0);
          humidityFactor = (if humidity d > 80 then lit_f 1.05 else lit_f 1.0);
          gasFactor = to_float (real_of_int (map_arduino (gasLevel d) 0 4095 0 50));
          smokeFactor = to_float (real_of_int (map_arduino (smokeLevel d) 0 4095 0 50));
          compositeAQI =
            to_float
              (d_add (d_add (d_add (d_mul (real_of_int (pm25_aqi (pm25 d))) (lit_d 0.4))
                                   (d_mul (real_of_int (pm10_aqi (pm10 d))) (lit_d 0.3)))
                            (d_mul gasFactor (lit_d 0.15)))
                     (d_mul smokeFactor (lit_d 0.05)));
          compositeAQI = f_mul (f_mul compositeAQI tempFactor) humidityFactor;
          envStress =
            to_float (d_div (f_add \<bar>f_sub (temperature d) 25\<bar> \<bar>f_sub (humidity d) 50\<bar>)
                            (lit_d 100.0));
          compositeAQI = f_add compositeAQI (f_mul envStress 10);
          compositeAQI = (if compositeAQI > 500 then 500 else compositeAQI);
          compositeAQI = (if compositeAQI < 0 then 0 else compositeAQI)
      in d\<lparr>aqi := to_long compositeAQI\<rparr>)"














section \<open>Global state of the node and its environment\<close>

text \<open>
  A line of \<open>/aqi_data.csv\<close>: the header text, or a data row printed from a sample. A
  data row starts with the decimal timestamp, so its text never equals the header's.
\<close>

datatype line = Header | Row SensorData

text \<open>The JSON document built by \<open>transmitData\<close>, one field per key.\<close>

record json_doc =
  j_node_id :: int
  j_packet :: int
  j_timestamp :: u32
  j_temp :: real
  j_humidity :: real
  j_pm25 :: real
  j_pm10 :: real
  j_gas :: int
  j_smoke :: int
  j_aqi :: int

text \<open>
  The globals of the sketch, the static \<open>firstRead\<close> of \<open>readPMS5003\<close>, and the devices
  it talks to: the bytes waiting in the receive buffer of the particulate sensor's
  serial port, the warning and error lines printed on the console (banners and the
  readings display are left out), the packets handed to the radio, and the log file on
  the SD card (\<open>None\<close> while it does not exist).
\<close>

record node =
  currentData :: SensorData
  lastSensorRead :: u32
  lastLoRaTransmit :: u32
  lastSDWrite :: u32
  packetCounter :: "32 word"
  firstRead :: bool
  pmsSerial :: "u8 list"
  console :: "string list"
  radio :: "json_doc list"
  sd_file :: "line list option"

text \<open>
  What the environment answers during one pass: the two readings of \<open>millis()\<close>, the DHT
  driver's results (\<open>None\<close> for not-a-number), the two analog channels, the bytes that
  lie in the stack memory of \<open>buffer\<close> when \<open>readPMS5003\<close> is entered (the array is not
  initialised), and whether \<open>SD.begin\<close>, \<open>SD.open\<close> and \<open>LoRa.begin\<close> succeed.
\<close>

record env =
  millis_loop :: u32
  millis_read :: u32
  dht_temperature :: "real option"
  dht_humidity :: "real option"
  analog_gas :: int
  analog_smoke :: int
  stack :: "nat \<Rightarrow> u8"
  sd_begin_ok :: bool
  sd_open_ok :: bool
  lora_begin_ok :: bool

definition NODE_ID :: int where
  "NODE_ID = 1"

definition SENSOR_READ_INTERVAL :: u32 where
  "SENSOR_READ_INTERVAL = 5000"

definition LORA_TRANSMIT_INTERVAL :: u32 where
  "LORA_TRANSMIT_INTERVAL = 30000"

text \<open>The state at power-up, before initialisation: globals are zero; the card keeps its file.\<close>

definition boot :: "line list option \<Rightarrow> node" where
  "boot sd_card =
     \<lparr>currentData = \<lparr>timestamp = 0, temperature = 0, humidity = 0, pm25 = 0, pm10 = 0,
                      gasLevel = 0, smokeLevel = 0, aqi = 0\<rparr>,
      lastSensorRead = 0, lastLoRaTransmit = 0, lastSDWrite = 0, packetCounter = 0,
      firstRead = True, pmsSerial = [], console = [], radio = [], sd_file = sd_card\<rparr>"

section \<open>The frame decoder\<close>

text \<open>
  The scanning loop of \<open>readPMS5003\<close>, on the bytes available when it is entered: the
  result is \<open>frameFound\<close> and the bytes left in the receive buffer. After a byte \<open>0x42\<close>
  the next byte is read as well, and is consumed whether or not it is \<open>0x4d\<close>. A read
  from the empty buffer gives \<open>-1\<close>, that is \<open>0xFF\<close> as \<open>uint8_t\<close>, which is not \<open>0x4d\<close>.
\<close>

fun find_sync :: "u8 list \<Rightarrow> bool \<times> u8 list" where
  "find_sync [] = (False, [])"
| "find_sync [byte1] = (False, [])"
| "find_sync (byte1 # byte2 # bs) =
     (if byte1 = 0x42 then (if byte2 = 0x4D then (True, bs) else find_sync bs)
      else find_sync (byte2 # bs))"

text \<open>The loop reading the rest of the frame into \<open>buffer[i]\<close>, \<open>i\<close> from 2 up to 31.\<close>

fun read_rest :: "nat \<Rightarrow> u8 list \<Rightarrow> (nat \<Rightarrow> u8) \<Rightarrow> (nat \<Rightarrow> u8) \<times> u8 list" where
  "read_rest i [] buffer = (buffer, [])"
| "read_rest i (b # bs) buffer =
     (if i < 32 then read_rest (Suc i) bs (buffer(i := b)) else (buffer, b # bs))"

text \<open>\<open>(buffer[hi] << 8) | buffer[lo]\<close> on \<open>int\<close>, stored into a \<open>float\<close> field.\<close>

definition extract16 :: "(nat \<Rightarrow> u8) \<Rightarrow> nat \<Rightarrow> nat \<Rightarrow> real" where
  "extract16 buffer hi lo = real_of_int (push_bit 8 (uint (buffer hi)) OR uint (buffer lo))"

definition readPMS5003 :: "(nat \<Rightarrow> u8) \<Rightarrow> node \<Rightarrow> node" where
  "readPMS5003 mem n =
     (if 32 \<le> length (pmsSerial n) then
        (case find_sync (pmsSerial n) of
           (True, bs) \<Rightarrow>
             (case read_rest 2 bs (mem(0 := 0x42, 1 := 0x4D)) of
                (buffer, bs') \<Rightarrow>
                  n\<lparr>pmsSerial := bs',
                    currentData := (currentData n)\<lparr>pm25 := extract16 buffer 12 13,
                                                    pm10 := extract16 buffer 14 15\<rparr>\<rparr>)
         | (False, bs) \<Rightarrow> n\<lparr>pmsSerial := bs\<rparr>)
      else if firstRead n then
        n\<lparr>currentData := (currentData n)\<lparr>pm25 := 0, pm10 := 0\<rparr>, firstRead := False\<rparr>
      else n)"

text \<open>
  Notions of the specification about the byte stream: the two-byte sync sequence occurs
  somewhere in it, and the big-endian 16-bit value of two bytes.
\<close>

fun has_sync :: "u8 list \<Rightarrow> bool" where
  "has_sync (a # b # bs) = ((a = 0x42 \<and> b = 0x4D) \<or> has_sync (b # bs))"
| "has_sync bs = False"

definition be16 :: "u8 \<Rightarrow> u8 \<Rightarrow> real" where
  "be16 hi lo = real_of_int (256 * uint hi + uint lo)"

section \<open>Acquisition\<close>

definition readAllSensors :: "env \<Rightarrow> node \<Rightarrow> node" where
  "readAllSensors e n =
     (let n1 = (case (dht_temperature e, dht_humidity e) of
                  (Some t, Some h) \<Rightarrow>
                    n\<lparr>currentData := (currentData n)\<lparr>temperature := t, humidity := h\<rparr>\<rparr>
                | _ \<Rightarrow>
                    n\<lparr>currentData := (currentData n)\<lparr>temperature := 0, humidity := 0\<rparr>,
                      console := console n @ [''Warning: DHT11 reading failed!'']\<rparr>);
          n2 = readPMS5003 (stack e) n1
      in n2\<lparr>currentData := (currentData n2)\<lparr>gasLevel := analog_gas e,
                                               smokeLevel := analog_smoke e,
                                               timestamp := millis_read e div 1000\<rparr>\<rparr>)"

section \<open>Telemetry\<close>

text \<open>
  \<open>round\<close>: to the nearest integer, halves away from zero (the Arduino macro and C's
  function agree on it). Its argument is a \<open>float\<close> product, and its result is divided by the
  \<open>double\<close> literal \<open>10.0\<close>.
\<close>

definition c_round :: "real \<Rightarrow> real" where
  "c_round x = (if 0 \<le> x then real_of_int \<lfloor>x + 1 / 2\<rfloor> else real_of_int \<lceil>x - 1 / 2\<rceil>)"

text \<open>
  \<open>packetCounter\<close> is declared \<open>int\<close>. Its 32 bits are kept as a word and read as a signed
  value; incrementing past the largest \<open>int\<close> is undefined in C++, and the model takes
  the two's-complement wrap-around of the hardware.
\<close>

definition transmitData :: "node \<Rightarrow> node" where
  "transmitData n =
     (let d = currentData n;
          doc = \<lparr>j_node_id = NODE_ID, j_packet = sint (packetCounter n),
                 j_timestamp = timestamp d,
                 j_temp = d_div (c_round (f_mul (temperature d) 10)) (lit_d 10.0),
                 j_humidity = d_div (c_round (f_mul (humidity d) 10)) (lit_d 10.0),
                 j_pm25 = d_div (c_round (f_mul (pm25 d) 10)) (lit_d 10.0),
                 j_pm10 = d_div (c_round (f_mul (pm10 d) 10)) (lit_d 10.0),
                 j_gas = gasLevel d, j_smoke = smokeLevel d, j_aqi = aqi d\<rparr>
      in n\<lparr>packetCounter := packetCounter n + 1, radio := radio n @ [doc]\<rparr>)"

section \<open>The log on the SD card\<close>

text \<open>
  \<open>SD.exists\<close> is false exactly when the file is absent. Opening with \<open>FILE_WRITE\<close> or
  \<open>FILE_APPEND\<close> creates an absent file (the behaviour of the ESP32 SD library) and may
  fail, as the environment decides; writing appends lines.
\<close>

definition createCSVHeader :: "env \<Rightarrow> node \<Rightarrow> node" where
  "createCSVHeader e n =
     (if sd_file n = None then
        (if sd_open_ok e then n\<lparr>sd_file := Some [Header]\<rparr>
         else n\<lparr>console := console n @ [''Error creating CSV file'']\<rparr>)
      else n)"

definition writeToSDCard :: "env \<Rightarrow> node \<Rightarrow> node" where
  "writeToSDCard e n =
     (if sd_open_ok e then
        n\<lparr>sd_file := Some ((case sd_file n of None \<Rightarrow> [] | Some ls \<Rightarrow> ls)
                             @ [Row (currentData n)])\<rparr>
      else n\<lparr>console := console n @ [''Error writing to SD card'']\<rparr>)"

text \<open>
  The sketch's \<open>setup()\<close>, as far as it touches the state. It does not return when the
  radio fails to start: it halts in \<open>while (1)\<close>.
\<close>

definition setup_node :: "env \<Rightarrow> node \<Rightarrow> node option" where
  "setup_node e n =
     (let n1 = (if \<not> sd_begin_ok e then
                  n\<lparr>console := console n
                       @ [''Warning: SD Card not available. Data will not be logged.'']\<rparr>
                else createCSVHeader e n)
      in if \<not> lora_begin_ok e then None else Some n1)"

section \<open>The scheduler\<close>

datatype action = Sample | Persist | Transmit

text \<open>
  One pass of \<open>loop\<close> with the clock reading \<open>currentMillis\<close>: the timed actions that
  fired, in order, and the new state. Subtraction and comparison are those of
  \<open>unsigned long\<close>.
\<close>

definition loop :: "env \<Rightarrow> node \<Rightarrow> action list \<times> node" where
  "loop e n =
     (let currentMillis = millis_loop e;
          (fired1, n1) =
            (if currentMillis - lastSensorRead n \<ge> SENSOR_READ_INTERVAL then
               (let n' = readAllSensors e n;
                    n' = n'\<lparr>currentData := calculateAQI (currentData n')\<rparr>;
                    (fired, n') =
                      (if currentMillis - lastSDWrite n' \<ge> 10000 then
                         ([Persist], (writeToSDCard e n')\<lparr>lastSDWrite := currentMillis\<rparr>)
                       else ([], n'))
                in (Sample # fired, n'\<lparr>lastSensorRead := currentMillis\<rparr>))
             else ([], n));
          (fired2, n2) =
            (if currentMillis - lastLoRaTransmit n1 \<ge> LORA_TRANSMIT_INTERVAL then
               ([Transmit], (transmitData n1)\<lparr>lastLoRaTransmit := currentMillis\<rparr>)
             else ([], n1))
      in (fired1 @ fired2, n2))"



section \<open>Drivers and concrete inputs\<close>

text \<open>The lines of the log file, none while the file is absent.\<close>

definition log_lines :: "node \<Rightarrow> line list" where
  "log_lines n = (case sd_file n of None \<Rightarrow> [] | Some ls \<Rightarrow> ls)"

text \<open>The log writer invoked once for each sample of a list, in order.\<close>

fun write_each :: "env \<Rightarrow> SensorData list \<Rightarrow> node \<Rightarrow> node" where
  "write_each e [] n = n"
| "write_each e (d # ds) n = write_each e ds (writeToSDCard e (n\<lparr>currentData := d\<rparr>))"

text \<open>
  An environment in which every device works, the air is at 25 degrees and 50 percent
  humidity, and both readings of the clock give \<open>t\<close>; and a trace of four passes whose
  clock readings are not multiples of the sampling period.
\<close>

definition env_at :: "u32 \<Rightarrow> env" where
  "env_at t = \<lparr>millis_loop = t, millis_read = t, dht_temperature = Some 25, dht_humidity = Some 50,
               analog_gas = 0, analog_smoke = 0, stack = (\<lambda>i. 0), sd_begin_ok = True,
               sd_open_ok = True, lora_begin_ok = True\<rparr>"




text \<open>
  A complete frame of the particulate sensor carrying PM2.5 = 35 and PM10 = 50 at byte
  offsets 12 to 15, and a stream of 32 bytes whose sync sequence comes last, so that no
  byte of the frame follows it.
\<close>

definition example_frame :: "u8 list" where
  "example_frame = [0x42, 0x4D] @ replicate 10 0 @ [0x00, 0x23, 0x00, 0x32] @ replicate 16 0"

definition late_sync_stream :: "u8 list" where
  "late_sync_stream = replicate 30 0 @ [0x42, 0x4D]"

section \<open>Properties\<close>

subsection \<open>Rounding\<close>





lemma exp_search_low: "a < 2 powi (e0 + 1) \<Longrightarrow> exp_search k e0 a = e0"
  by (cases k) simp_all






















subsection \<open>The AQI engine at the rounding sample\<close>














subsection \<open>The AQI engine and the reference algorithm\<close>



























lemma to_long_range: "0 \<le> x \<Longrightarrow> x \<le> 500 \<Longrightarrow> 0 \<le> to_long x \<and> to_long x \<le> 500"
  unfolding to_long_def by (simp add: floor_le_iff)

text \<open>
  C2. Whatever the temperature, humidity, particulate, gas and smoke values of the sample,
  the \<open>aqi\<close> field written by the AQI engine is an integer between 0 and 500.
\<close>

theorem C2_aqi_range:
  "0 \<le> aqi (calculateAQI d) \<and> aqi (calculateAQI d) \<le> 500"
proof -
  obtain v where a: "aqi (calculateAQI d) =
      to_long (if (if v > 500 then 500 else v) < 0 then 0 else (if v > 500 then 500 else v))"
    by (simp add: calculateAQI_def Let_def)
  have "0 \<le> (if (if v > 500 then 500 else v) < 0 then 0 else (if v > 500 then 500 else v))"
       "(if (if v > 500 then 500 else v) < 0 then 0 else (if v > 500 then 500 else v)) \<le> 500"
    by auto
  then show ?thesis
    unfolding a by (rule to_long_range)
qed

subsection \<open>The frame decoder\<close>

lemma find_sync_found:
  "\<not> has_sync pre \<Longrightarrow> pre = [] \<or> last pre \<noteq> 0x42 \<Longrightarrow>
   find_sync (pre @ 0x42 # 0x4D # rest) = (True, rest)"
proof (induction pre rule: find_sync.induct)
  case 1
  then show ?case by simp
next
  case (2 byte1)
  then show ?case by simp
next
  case (3 byte1 byte2 bs)
  show ?case
  proof (cases "byte1 = 0x42")
    case True
    with 3 show ?thesis by (cases bs) (auto split: if_splits)
  next
    case False
    with 3 show ?thesis by (auto split: if_splits)
  qed
qed

lemma find_sync_none: "\<not> has_sync bs \<Longrightarrow> find_sync bs = (False, [])"
proof (induction bs rule: find_sync.induct)
  case (3 byte1 byte2 bs)
  then show ?case by (cases bs) auto
qed simp_all

lemma find_sync_drained: "find_sync bs = (False, bs') \<Longrightarrow> bs' = []"
  by (induction bs rule: find_sync.induct) (auto split: if_splits)

lemma read_rest_buffer:
  "fst (read_rest i bs buffer) k =
     (if i \<le> k \<and> k < 32 \<and> k - i < length bs then bs ! (k - i) else buffer k)"
proof (induction bs arbitrary: i buffer)
  case Nil
  then show ?case by simp
next
  case (Cons b bs)
  show ?case
  proof (cases "i < 32")
    case True
    have "fst (read_rest i (b # bs) buffer) k = fst (read_rest (Suc i) bs (buffer(i := b))) k"
      using True by simp
    also have "\<dots> = (if Suc i \<le> k \<and> k < 32 \<and> k - Suc i < length bs
                       then bs ! (k - Suc i) else (buffer(i := b)) k)"
      by (rule Cons.IH)
    also have "\<dots> = (if i \<le> k \<and> k < 32 \<and> k - i < length (b # bs)
                       then (b # bs) ! (k - i) else buffer k)"
      using True by (cases "k = i") (auto simp: nth_Cons')
    finally show ?thesis .
  next
    case False
    then show ?thesis by auto
  qed
qed

lemma read_rest_left: "snd (read_rest i bs buffer) = drop (32 - i) bs"
proof (induction bs arbitrary: i buffer)
  case Nil
  then show ?case by simp
next
  case (Cons b bs)
  show ?case
  proof (cases "i < 32")
    case True
    have "snd (read_rest i (b # bs) buffer) = snd (read_rest (Suc i) bs (buffer(i := b)))"
      using True by simp
    also have "\<dots> = drop (32 - Suc i) bs"
      by (rule Cons.IH)
    also have "\<dots> = drop (32 - i) (b # bs)"
      using True by (simp add: drop_Cons')
    finally show ?thesis .
  next
    case False
    then show ?thesis by simp
  qed
qed

lemma extract16_be16: "extract16 buffer hi lo = be16 (buffer hi) (buffer lo)"
proof -
  have low: "take_bit 8 (uint (buffer lo)) = uint (buffer lo)"
    by (rule bintr_uint) simp
  have "push_bit 8 (uint (buffer hi)) OR uint (buffer lo)
          = concat_bit 8 (uint (buffer lo)) (uint (buffer hi))"
    by (simp add: concat_bit_def low or.commute)
  also have "\<dots> = uint (buffer lo) + 256 * uint (buffer hi)"
    by (simp add: concat_bit_eq low push_bit_eq_mult)
  finally show ?thesis by (simp add: extract16_def be16_def)
qed

lemma no_sync_without_start: "0x42 \<notin> set bs \<Longrightarrow> \<not> has_sync bs"
  by (induction bs rule: has_sync.induct) auto

lemma readPMS5003_found:
  assumes "32 \<le> length (pmsSerial n)" and "find_sync (pmsSerial n) = (True, bs)"
  shows "readPMS5003 mem n =
           n\<lparr>pmsSerial := drop 30 bs,
             currentData := (currentData n)
               \<lparr>pm25 := be16 (fst (read_rest 2 bs (mem(0 := 0x42, 1 := 0x4D))) 12)
                             (fst (read_rest 2 bs (mem(0 := 0x42, 1 := 0x4D))) 13),
                pm10 := be16 (fst (read_rest 2 bs (mem(0 := 0x42, 1 := 0x4D))) 14)
                             (fst (read_rest 2 bs (mem(0 := 0x42, 1 := 0x4D))) 15)\<rparr>\<rparr>"
proof -
  obtain buffer bs' where r: "read_rest 2 bs (mem(0 := 0x42, 1 := 0x4D)) = (buffer, bs')"
    by (cases "read_rest 2 bs (mem(0 := 0x42, 1 := 0x4D))")
  have "bs' = drop 30 bs"
    using read_rest_left [of 2 bs "mem(0 := 0x42, 1 := 0x4D)"] r by simp
  then show ?thesis
    using assms r by (simp add: readPMS5003_def extract16_be16)
qed

lemma readPMS5003_found_on:
  assumes "32 \<le> length bytes" and "find_sync bytes = (True, bs)"
  shows "readPMS5003 mem (n\<lparr>pmsSerial := bytes\<rparr>) =
           n\<lparr>pmsSerial := drop 30 bs,
             currentData := (currentData n)
               \<lparr>pm25 := be16 (fst (read_rest 2 bs (mem(0 := 0x42, 1 := 0x4D))) 12)
                             (fst (read_rest 2 bs (mem(0 := 0x42, 1 := 0x4D))) 13),
                pm10 := be16 (fst (read_rest 2 bs (mem(0 := 0x42, 1 := 0x4D))) 14)
                             (fst (read_rest 2 bs (mem(0 := 0x42, 1 := 0x4D))) 15)\<rparr>\<rparr>"
  using readPMS5003_found [of "n\<lparr>pmsSerial := bytes\<rparr>" bs mem] assms by simp

lemma example_frame_facts:
  "length example_frame = 32" "take 2 example_frame = [0x42, 0x4D]"
  "example_frame ! 12 = 0" "example_frame ! 13 = 0x23" "example_frame ! 14 = 0" "example_frame ! 15 = 0x32"
  "drop 32 example_frame = []"
  by (simp_all add: example_frame_def nth_append nth_Cons')

lemma example_frame_scan: "find_sync example_frame = (True, drop 2 example_frame)"
  by (simp add: example_frame_def)

lemma stray_start_scan: "find_sync (0x42 # example_frame) = (False, [])"
  by (simp add: example_frame_def find_sync_none no_sync_without_start)

lemma late_sync_scan: "find_sync late_sync_stream = (True, [])"
  unfolding late_sync_stream_def
  by (rule find_sync_found [of "replicate 30 0" "[]", simplified]) (simp_all add: no_sync_without_start)

text \<open>
  C3, as the decoder implements it. With at least 32 bytes available: when the stream is
  some bytes \<open>pre\<close> without a sync sequence, not ending in \<open>0x42\<close>, followed by a frame
  that starts with \<open>0x42 0x4D\<close> and has at least its first 16 bytes, the decoder sets
  \<open>pm25\<close> and \<open>pm10\<close> to the big-endian 16-bit values at frame offsets 12-13 and 14-15
  and leaves in the receive buffer what follows the 32 bytes of the frame; when the
  stream contains no sync sequence, the decoder consumes all of it and leaves the sample
  unchanged. It is a total function: no input makes it fail.
\<close>

theorem C3_decoder:
  assumes "32 \<le> length (pmsSerial n)"
  shows "(pmsSerial n = pre @ frame \<and> take 2 frame = [0x42, 0x4D] \<and> 16 \<le> length frame
            \<and> \<not> has_sync pre \<and> (pre = [] \<or> last pre \<noteq> 0x42) \<longrightarrow>
          pm25 (currentData (readPMS5003 mem n)) = be16 (frame ! 12) (frame ! 13) \<and>
          pm10 (currentData (readPMS5003 mem n)) = be16 (frame ! 14) (frame ! 15) \<and>
          pmsSerial (readPMS5003 mem n) = drop 32 frame)
       \<and> (\<not> has_sync (pmsSerial n) \<longrightarrow>
          currentData (readPMS5003 mem n) = currentData n \<and> pmsSerial (readPMS5003 mem n) = [])"
proof (intro conjI impI)
  assume a: "pmsSerial n = pre @ frame \<and> take 2 frame = [0x42, 0x4D] \<and> 16 \<le> length frame
            \<and> \<not> has_sync pre \<and> (pre = [] \<or> last pre \<noteq> 0x42)"
  then obtain bs where frame: "frame = 0x42 # 0x4D # bs"
    by (cases frame; cases "tl frame") auto
  with a have len: "14 \<le> length bs" by simp
  from a frame have "find_sync (pmsSerial n) = (True, bs)"
    by (simp add: find_sync_found)
  note found = readPMS5003_found [OF assms this, of mem]
  show "pm25 (currentData (readPMS5003 mem n)) = be16 (frame ! 12) (frame ! 13)"
    using len by (simp add: found read_rest_buffer frame)
  show "pm10 (currentData (readPMS5003 mem n)) = be16 (frame ! 14) (frame ! 15)"
    using len by (simp add: found read_rest_buffer frame)
  show "pmsSerial (readPMS5003 mem n) = drop 32 frame"
    by (simp add: found frame)
next
  assume "\<not> has_sync (pmsSerial n)"
  then have f: "find_sync (pmsSerial n) = (False, [])"
    by (rule find_sync_none)
  show "currentData (readPMS5003 mem n) = currentData n"
    using assms f by (simp add: readPMS5003_def)
  show "pmsSerial (readPMS5003 mem n) = []"
    using assms f by (simp add: readPMS5003_def)
qed

text \<open>
  The theorem at a frame preceded by one stray byte, and at 32 bytes without a sync.
\<close>

theorem C3_decoder_witness:
  "pm25 (currentData (readPMS5003 (\<lambda>i. 0) ((boot None)\<lparr>pmsSerial := [0x07] @ example_frame\<rparr>))) = 35
   \<and> pm10 (currentData (readPMS5003 (\<lambda>i. 0) ((boot None)\<lparr>pmsSerial := [0x07] @ example_frame\<rparr>))) = 50
   \<and> pmsSerial (readPMS5003 (\<lambda>i. 0) ((boot None)\<lparr>pmsSerial := [0x07] @ example_frame\<rparr>)) = []
   \<and> currentData (readPMS5003 (\<lambda>i. 0) ((boot None)\<lparr>pmsSerial := replicate 32 0x07\<rparr>)) = currentData (boot None)"
proof -
  have n: "\<not> has_sync (replicate 32 (0x07 :: u8))"
    by (rule no_sync_without_start) simp
  show ?thesis
    using C3_decoder [of "(boot None)\<lparr>pmsSerial := [0x07] @ example_frame\<rparr>" "[0x07]" example_frame "\<lambda>i. 0"]
      C3_decoder [of "(boot None)\<lparr>pmsSerial := replicate 32 0x07\<rparr>" "[]" "[]" "\<lambda>i. 0"] n
    by (simp add: example_frame_facts be16_def)
qed

text \<open>
  C3 as stated fails on two streams of at least 32 bytes in which the sync sequence
  occurs. In the first a byte \<open>0x42\<close> precedes a complete frame: the scan consumes the
  frame's own \<open>0x42\<close> as the second byte of a candidate sync, never finds the frame, and
  the particulate values stay as they were (0 instead of 35). In the second the sync
  sequence ends the stream: the frame is taken as found, and \<open>pm25\<close> is assembled from
  bytes of the buffer that were never written (\<open>0xAAAA\<close> = 43690 when the memory held
  \<open>0xAA\<close>).
\<close>

theorem C3_counterexample:
  "32 \<le> length (0x42 # example_frame) \<and> has_sync (0x42 # example_frame)
   \<and> be16 (example_frame ! 12) (example_frame ! 13) = 35
   \<and> pm25 (currentData (readPMS5003 (\<lambda>i. 0xAA) ((boot None)\<lparr>pmsSerial := 0x42 # example_frame\<rparr>))) = 0
   \<and> 32 \<le> length late_sync_stream \<and> has_sync late_sync_stream
   \<and> pm25 (currentData (readPMS5003 (\<lambda>i. 0xAA) ((boot None)\<lparr>pmsSerial := late_sync_stream\<rparr>))) = 43690"
proof -
  have 1: "32 \<le> length (0x42 # example_frame)"
    by (simp add: example_frame_facts)
  have 2: "has_sync (0x42 # example_frame)"
    by (simp add: example_frame_def)
  have 3: "be16 (example_frame ! 12) (example_frame ! 13) = 35"
    by (simp add: example_frame_facts be16_def)
  have 4: "pm25 (currentData (readPMS5003 (\<lambda>i. 0xAA) ((boot None)\<lparr>pmsSerial := 0x42 # example_frame\<rparr>))) = 0"
    by (simp add: readPMS5003_def stray_start_scan example_frame_facts boot_def)
  have 5: "32 \<le> length late_sync_stream"
    by (simp add: late_sync_stream_def)
  have 6: "has_sync late_sync_stream"
    by (simp add: late_sync_stream_def numeral_eq_Suc)
  have 7: "pm25 (currentData (readPMS5003 (\<lambda>i. 0xAA) ((boot None)\<lparr>pmsSerial := late_sync_stream\<rparr>))) = 43690"
    using 5 by (simp add: readPMS5003_found_on [OF _ late_sync_scan] be16_def)
  from 1 2 3 4 5 6 7 show ?thesis by blast
qed

text \<open>
  C4, evaluated where the sketch departs from it. The first cycle after power-up decodes
  a complete frame (PM2.5 = 35, PM10 = 50) and empties the receive buffer. In the second
  cycle fewer than 32 bytes are available, and the decoder sets both values to 0
  instead of retaining them: the flag \<open>firstRead\<close> is cleared only on the branch taken
  when too few bytes are available, so it is still set after a successful first cycle.
\<close>

theorem C4_first_read_flag:
  "length (pmsSerial ((boot None)\<lparr>pmsSerial := example_frame\<rparr>)) = 32
   \<and> pm25 (currentData (readPMS5003 mem ((boot None)\<lparr>pmsSerial := example_frame\<rparr>))) = 35
   \<and> pm10 (currentData (readPMS5003 mem ((boot None)\<lparr>pmsSerial := example_frame\<rparr>))) = 50
   \<and> pmsSerial (readPMS5003 mem ((boot None)\<lparr>pmsSerial := example_frame\<rparr>)) = []
   \<and> pm25 (currentData (readPMS5003 mem (readPMS5003 mem ((boot None)\<lparr>pmsSerial := example_frame\<rparr>)))) = 0
   \<and> pm10 (currentData (readPMS5003 mem (readPMS5003 mem ((boot None)\<lparr>pmsSerial := example_frame\<rparr>)))) = 0"
proof -
  have f: "readPMS5003 mem ((boot None)\<lparr>pmsSerial := example_frame\<rparr>) =
    (boot None)\<lparr>pmsSerial := [], currentData := (currentData (boot None))\<lparr>pm25 := 35, pm10 := 50\<rparr>\<rparr>"
  proof -
    have len: "32 \<le> length example_frame"
      by (simp add: example_frame_facts)
    show ?thesis
      unfolding readPMS5003_found_on [OF len example_frame_scan]
      by (simp add: read_rest_buffer example_frame_facts be16_def)
  qed
  show ?thesis
    unfolding f by (simp add: example_frame_facts readPMS5003_def boot_def)
qed

text \<open>
  C9. There are streams in which the sync sequence is found and the stream drains before
  the frame's bytes 12 to 15 are read: whenever at least 32 bytes are available, the scan
  reaches a sync sequence, and at most 10 bytes follow it, the decoder still assigns
  \<open>pm25\<close> and \<open>pm10\<close>, from the bytes that the memory of the buffer held on entry, and no
  byte of the stream takes part in the values.
\<close>

theorem C9_truncated_frame:
  assumes "32 \<le> length (pmsSerial n)"
    and "pmsSerial n = pre @ 0x42 # 0x4D # bs"
    and "\<not> has_sync pre" and "pre = [] \<or> last pre \<noteq> 0x42"
    and "length bs \<le> 10"
  shows "pm25 (currentData (readPMS5003 mem n)) = be16 (mem 12) (mem 13)
       \<and> pm10 (currentData (readPMS5003 mem n)) = be16 (mem 14) (mem 15)
       \<and> pmsSerial (readPMS5003 mem n) = []"
proof -
  have "find_sync (pmsSerial n) = (True, bs)"
    using assms by (simp add: find_sync_found)
  note found = readPMS5003_found [OF assms(1) this, of mem]
  show ?thesis
    using assms(5) by (simp add: found read_rest_buffer)
qed

text \<open>
  Such a stream exists: 32 bytes with the sync sequence last. The values follow the
  memory, whatever it holds.
\<close>

theorem C9_truncated_frame_witness:
  "32 \<le> length late_sync_stream \<and> has_sync late_sync_stream
   \<and> pm25 (currentData (readPMS5003 (\<lambda>i. 0xAA) ((boot None)\<lparr>pmsSerial := late_sync_stream\<rparr>))) = be16 0xAA 0xAA
   \<and> pm10 (currentData (readPMS5003 (\<lambda>i. 0x01) ((boot None)\<lparr>pmsSerial := late_sync_stream\<rparr>))) = be16 0x01 0x01"
proof -
  have a: "late_sync_stream = replicate 30 0 @ 0x42 # 0x4D # []"
    by (simp add: late_sync_stream_def)
  have b: "\<not> has_sync (replicate 30 (0 :: u8))"
    by (rule no_sync_without_start) simp
  have c: "has_sync late_sync_stream"
    by (simp add: late_sync_stream_def numeral_eq_Suc)
  have d: "32 \<le> length late_sync_stream"
    by (simp add: late_sync_stream_def)
  show ?thesis
    using C9_truncated_frame [of "(boot None)\<lparr>pmsSerial := late_sync_stream\<rparr>" "replicate 30 0" "[]" "\<lambda>i. 0xAA"]
      C9_truncated_frame [of "(boot None)\<lparr>pmsSerial := late_sync_stream\<rparr>" "replicate 30 0" "[]" "\<lambda>i. 0x01"]
      a b c d
    by simp
qed

subsection \<open>The packet counter\<close>

lemma transmitData_counter: "packetCounter (transmitData n) = packetCounter n + 1"
  by (simp add: transmitData_def Let_def)

lemma transmitData_packet:
  "j_packet (last (radio (transmitData n))) = sint (packetCounter n)"
  by (simp add: transmitData_def Let_def)

lemma transmitData_radio_length: "length (radio (transmitData n)) = Suc (length (radio n))"
  by (simp add: transmitData_def Let_def)

lemma transmits_counter: "packetCounter ((transmitData ^^ k) n) = packetCounter n + word_of_nat k"
  by (induction k) (simp_all add: transmitData_counter)

lemma boot_counter: "packetCounter (boot sd_card) = 0"
  by (simp add: boot_def)

lemma sint_small: "k < 2 ^ 31 \<Longrightarrow> sint (word_of_nat k :: 32 word) = int k"
proof -
  assume "k < 2 ^ 31"
  then have "int k < int (2 ^ 31)" by (simp only: of_nat_less_iff)
  also have "int (2 ^ 31) = 2 ^ 31" by simp
  finally have "int k < 2 ^ 31" .
  then have "signed_take_bit 31 (int k) = int k"
    by (intro signed_take_bit_int_eq_self) simp_all
  then show ?thesis by (simp add: signed_of_nat)
qed

text \<open>
  C5, for the counter as declared. \<open>packetCounter\<close> is a signed 32-bit \<open>int\<close>, 0 at
  power-up. Each call of \<open>transmitData\<close> hands one message to the radio, whose sequence
  number is the counter's value before the call, and increments the counter by exactly 1.
  The sequence number is the number of earlier transmits as long as that is below
  \<open>2^31\<close>; after \<open>2^31\<close> transmits it is \<open>-2^31\<close>, and after \<open>2^32\<close> transmits the
  counter is 0 again.
\<close>

theorem C5_packet_counter:
  "packetCounter (boot sd_card) = 0
   \<and> packetCounter (transmitData n) = packetCounter n + 1
   \<and> length (radio (transmitData n)) = Suc (length (radio n))
   \<and> j_packet (last (radio (transmitData n))) = sint (packetCounter n)
   \<and> (k < 2 ^ 31 \<longrightarrow> sint (packetCounter ((transmitData ^^ k) (boot sd_card))) = int k)
   \<and> sint (packetCounter ((transmitData ^^ (2 ^ 31)) (boot sd_card))) = - (2 ^ 31)
   \<and> packetCounter ((transmitData ^^ (2 ^ 32)) (boot sd_card)) = 0"
proof -
  have a: "packetCounter ((transmitData ^^ k) (boot sd_card)) = word_of_nat k" for k
    by (simp add: transmits_counter boot_counter)
  have b: "sint (word_of_nat (2 ^ 31) :: 32 word) = - (2 ^ 31)"
    by simp
  have c: "(word_of_nat (2 ^ 32) :: 32 word) = 0"
    by simp
  have d: "k < 2 ^ 31 \<longrightarrow> sint (word_of_nat k :: 32 word) = int k"
    using sint_small by blast
  show ?thesis
    unfolding a b c using d
    by (simp only: boot_counter transmitData_counter transmitData_packet
        transmitData_radio_length simp_thms)
qed

text \<open>
  The theorem at three transmits after power-up.
\<close>

theorem C5_packet_counter_witness:
  "(3 :: nat) < 2 ^ 31 \<and> sint (packetCounter ((transmitData ^^ 3) (boot None))) = 3"
  using C5_packet_counter [of None "boot None" 3] by simp

text \<open>
  C5 as stated fails: the counter is not unsigned. The message of transmit number
  \<open>2^31 + 1\<close> carries the negative sequence number \<open>-2147483648\<close>.
\<close>

theorem C5_counterexample:
  "j_packet (last (radio ((transmitData ^^ Suc (2 ^ 31)) (boot None)))) = - 2147483648"
proof -
  have "sint (packetCounter ((transmitData ^^ (2 ^ 31)) (boot None))) = - (2 ^ 31)"
    by (simp add: transmits_counter boot_counter)
  then show ?thesis
    by (simp only: funpow.simps o_apply transmitData_packet) simp
qed

subsection \<open>The scheduler\<close>

lemma readPMS5003_frame:
  "lastSensorRead (readPMS5003 mem n) = lastSensorRead n"
  "lastSDWrite (readPMS5003 mem n) = lastSDWrite n"
  "lastLoRaTransmit (readPMS5003 mem n) = lastLoRaTransmit n"
  "sd_file (readPMS5003 mem n) = sd_file n"
  "console (readPMS5003 mem n) = console n"
  by (simp_all add: readPMS5003_def split: prod.splits bool.splits)

lemma readAllSensors_frame:
  "lastSensorRead (readAllSensors e n) = lastSensorRead n"
  "lastSDWrite (readAllSensors e n) = lastSDWrite n"
  "lastLoRaTransmit (readAllSensors e n) = lastLoRaTransmit n"
  "sd_file (readAllSensors e n) = sd_file n"
  by (simp_all add: readAllSensors_def Let_def readPMS5003_frame split: option.splits)


lemma transmitData_frame:
  "lastSensorRead (transmitData n) = lastSensorRead n"
  "lastSDWrite (transmitData n) = lastSDWrite n"
  "lastLoRaTransmit (transmitData n) = lastLoRaTransmit n"
  "sd_file (transmitData n) = sd_file n"
  by (simp_all add: transmitData_def Let_def)













subsection \<open>The log file\<close>

lemma write_each_existing:
  "sd_open_ok e \<Longrightarrow> sd_file n = Some ls \<Longrightarrow> sd_file (write_each e ds n) = Some (ls @ map Row ds)"
  by (induction ds arbitrary: n ls) (simp_all add: writeToSDCard_def)

lemma createCSVHeader_absent:
  "sd_open_ok e \<Longrightarrow> sd_file n = None \<Longrightarrow> sd_file (createCSVHeader e n) = Some [Header]"
  by (simp add: createCSVHeader_def)

lemma createCSVHeader_existing:
  "sd_file n = Some ls \<Longrightarrow> createCSVHeader e n = n"
  by (simp add: createCSVHeader_def)

lemma setup_node_Some:
  "setup_node e n = Some n0 \<Longrightarrow>
   n0 = (if sd_begin_ok e then createCSVHeader e n
         else n\<lparr>console := console n
                  @ [''Warning: SD Card not available. Data will not be logged.'']\<rparr>)"
  by (auto simp: setup_node_def Let_def split: if_splits)

text \<open>
  C7, as the sketch implements it. When initialisation completes with the SD card started
  and the file opening, and then the log writer runs for N samples: if the file was
  absent at power-up, it holds exactly one header line followed by the N data rows in call
  order; if it existed, initialisation leaves it as it was, whatever its content, and it
  holds the old lines followed by the N data rows.
\<close>

theorem C7_log_writer:
  assumes "setup_node e n = Some n0" and "sd_begin_ok e" and "sd_open_ok e"
  shows "(sd_file n = None \<longrightarrow> sd_file (write_each e ds n0) = Some (Header # map Row ds))
       \<and> (sd_file n = Some ls \<longrightarrow> sd_file n0 = Some ls
            \<and> sd_file (write_each e ds n0) = Some (ls @ map Row ds))"
proof -
  have n0: "n0 = createCSVHeader e n"
    using setup_node_Some [OF assms(1)] assms(2) by simp
  show ?thesis
    using assms(3)
    by (auto simp: n0 createCSVHeader_existing createCSVHeader_absent write_each_existing)
qed

text \<open>
  The theorem for a card without the file and two samples, and for a card whose file
  holds one data row and no header.
\<close>

theorem C7_log_writer_witness:
  "setup_node (env_at 0) (boot None) = Some ((boot None)\<lparr>sd_file := Some [Header]\<rparr>)
   \<and> sd_file (write_each (env_at 0) [currentData (boot None), (currentData (boot None))\<lparr>aqi := 7\<rparr>]
        ((boot None)\<lparr>sd_file := Some [Header]\<rparr>))
      = Some [Header, Row (currentData (boot None)), Row ((currentData (boot None))\<lparr>aqi := 7\<rparr>)]
   \<and> sd_file (write_each (env_at 0) [currentData (boot None)] (boot (Some [Row (currentData (boot None))])))
      = Some [Row (currentData (boot None)), Row (currentData (boot None))]"
proof -
  have a: "setup_node (env_at 0) (boot None) = Some ((boot None)\<lparr>sd_file := Some [Header]\<rparr>)"
    by (simp add: setup_node_def createCSVHeader_def env_at_def boot_def)
  have b: "setup_node (env_at 0) (boot (Some [Row (currentData (boot None))]))
             = Some (boot (Some [Row (currentData (boot None))]))"
    by (simp add: setup_node_def createCSVHeader_def env_at_def boot_def)
  have c: "sd_begin_ok (env_at 0)" "sd_open_ok (env_at 0)"
    by (simp_all add: env_at_def)
  have d: "sd_file (boot sd_card) = sd_card" for sd_card
    by (simp add: boot_def)
  show ?thesis
    using C7_log_writer [OF a c, of "[currentData (boot None), (currentData (boot None))\<lparr>aqi := 7\<rparr>]" "[]"]
      C7_log_writer [OF b c, of "[currentData (boot None)]" "[Row (currentData (boot None))]"] a
    by (simp add: d)
qed

text \<open>
  C7 as stated fails for the log writer on its own: invoked once while the file is
  absent, it creates the file with the data row and no header line.
\<close>

theorem C7_counterexample:
  "sd_file (boot None) = None
   \<and> sd_file (write_each (env_at 0) [currentData (boot None)] (boot None)) = Some [Row (currentData (boot None))]"
  by (simp add: writeToSDCard_def env_at_def boot_def)

subsection \<open>Acquisition\<close>

lemma readPMS5003_cong_dht:
  "pm25 (currentData (readPMS5003 mem (n\<lparr>currentData := (currentData n)\<lparr>temperature := t, humidity := h\<rparr>, console := c\<rparr>)))
     = pm25 (currentData (readPMS5003 mem n))"
  "pm10 (currentData (readPMS5003 mem (n\<lparr>currentData := (currentData n)\<lparr>temperature := t, humidity := h\<rparr>, console := c\<rparr>)))
     = pm10 (currentData (readPMS5003 mem n))"
  "pmsSerial (readPMS5003 mem (n\<lparr>currentData := (currentData n)\<lparr>temperature := t, humidity := h\<rparr>, console := c\<rparr>))
     = pmsSerial (readPMS5003 mem n)"
  "temperature (currentData (readPMS5003 mem (n\<lparr>currentData := (currentData n)\<lparr>temperature := t, humidity := h\<rparr>, console := c\<rparr>)))
     = t"
  "humidity (currentData (readPMS5003 mem (n\<lparr>currentData := (currentData n)\<lparr>temperature := t, humidity := h\<rparr>, console := c\<rparr>)))
     = h"
  "console (readPMS5003 mem (n\<lparr>currentData := (currentData n)\<lparr>temperature := t, humidity := h\<rparr>, console := c\<rparr>))
     = c"
  by (simp_all add: readPMS5003_def split: prod.splits bool.splits)

text \<open>
  C8. When the driver reports an invalid temperature or an invalid humidity, the
  acquisition sets both fields to 0, prints the warning, and goes on: the particulate
  values are those the frame decoder gives, and the gas level, the smoke level and the
  timestamp are read as usual. \<open>readAllSensors\<close> is total, so the cycle is never aborted.
\<close>

theorem C8_dht_failure:
  assumes "dht_temperature e = None \<or> dht_humidity e = None"
  shows "temperature (currentData (readAllSensors e n)) = 0
       \<and> humidity (currentData (readAllSensors e n)) = 0
       \<and> console (readAllSensors e n) = console n @ [''Warning: DHT11 reading failed!'']
       \<and> pm25 (currentData (readAllSensors e n)) = pm25 (currentData (readPMS5003 (stack e) n))
       \<and> pm10 (currentData (readAllSensors e n)) = pm10 (currentData (readPMS5003 (stack e) n))
       \<and> pmsSerial (readAllSensors e n) = pmsSerial (readPMS5003 (stack e) n)
       \<and> gasLevel (currentData (readAllSensors e n)) = analog_gas e
       \<and> smokeLevel (currentData (readAllSensors e n)) = analog_smoke e
       \<and> timestamp (currentData (readAllSensors e n)) = millis_read e div 1000"
proof -
  have "readAllSensors e n =
          (let n2 = readPMS5003 (stack e)
                      (n\<lparr>currentData := (currentData n)\<lparr>temperature := 0, humidity := 0\<rparr>,
                         console := console n @ [''Warning: DHT11 reading failed!'']\<rparr>)
           in n2\<lparr>currentData := (currentData n2)\<lparr>gasLevel := analog_gas e,
                                               smokeLevel := analog_smoke e,
                                               timestamp := millis_read e div 1000\<rparr>\<rparr>)"
    using assms by (auto simp: readAllSensors_def Let_def split: option.splits)
  then show ?thesis
    by (simp add: Let_def readPMS5003_cong_dht)
qed

text \<open>
  The theorem for a failed temperature reading 7000 ms after power-up.
\<close>

theorem C8_dht_failure_witness:
  "dht_temperature ((env_at 7000)\<lparr>dht_temperature := None\<rparr>) = None
   \<and> temperature (currentData (readAllSensors ((env_at 7000)\<lparr>dht_temperature := None\<rparr>) (boot None))) = 0
   \<and> humidity (currentData (readAllSensors ((env_at 7000)\<lparr>dht_temperature := None\<rparr>) (boot None))) = 0
   \<and> console (readAllSensors ((env_at 7000)\<lparr>dht_temperature := None\<rparr>) (boot None))
        = [''Warning: DHT11 reading failed!'']
   \<and> timestamp (currentData (readAllSensors ((env_at 7000)\<lparr>dht_temperature := None\<rparr>) (boot None))) = 7"
  using C8_dht_failure [of "(env_at 7000)\<lparr>dht_temperature := None\<rparr>" "boot None"]
  by (simp add: env_at_def boot_def)

subsection \<open>Where the header is written\<close>

lemma writeToSDCard_headers:
  "count_list (log_lines (writeToSDCard e n)) Header = count_list (log_lines n) Header"
  by (simp add: writeToSDCard_def log_lines_def split: option.splits)

lemma loop_headers:
  "count_list (log_lines (snd (loop e n))) Header = count_list (log_lines n) Header"
proof -
  have a: "log_lines (m\<lparr>currentData := d\<rparr>) = log_lines m" for m d
    by (simp add: log_lines_def)
  have b: "log_lines (m\<lparr>lastSDWrite := t\<rparr>) = log_lines m" for m t
    by (simp add: log_lines_def)
  have c: "log_lines (m\<lparr>lastSensorRead := t\<rparr>) = log_lines m" for m t
    by (simp add: log_lines_def)
  have d: "log_lines (m\<lparr>lastLoRaTransmit := t\<rparr>) = log_lines m" for m t
    by (simp add: log_lines_def)
  have f: "log_lines (transmitData m) = log_lines m" for m
    by (simp add: log_lines_def transmitData_frame)
  have g: "log_lines (readAllSensors e m) = log_lines m" for m
    by (simp add: log_lines_def readAllSensors_frame)
  show ?thesis
    by (simp add: loop_def Let_def a b c d f g writeToSDCard_headers split: prod.splits)
qed

text \<open>
  C10. The header line is written only at initialisation: no pass of the main loop changes
  the number of header lines in the log, and initialisation with a failed start of the
  SD card leaves the file as it was. When the log writer runs while the file is absent and
  the file opens, it creates the file holding data rows only, so there is no header
  unless the file could be created at initialisation.
\<close>

theorem C10_header_only_at_boot:
  "count_list (log_lines (snd (loop e n))) Header = count_list (log_lines n) Header
   \<and> (setup_node e n = Some n0 \<and> \<not> sd_begin_ok e \<longrightarrow> sd_file n0 = sd_file n)
   \<and> (sd_file n = None \<and> sd_open_ok e \<longrightarrow>
        sd_file (writeToSDCard e n) = Some [Row (currentData n)]
        \<and> sd_file (write_each e (d # ds) n) = Some (map Row (d # ds)))"
proof -
  have 1: "setup_node e n = Some n0 \<and> \<not> sd_begin_ok e \<longrightarrow> sd_file n0 = sd_file n"
    using setup_node_Some [of e n n0] by auto
  have 2: "sd_file n = None \<and> sd_open_ok e \<longrightarrow>
        sd_file (writeToSDCard e n) = Some [Row (currentData n)]"
    by (simp add: writeToSDCard_def)
  have 3: "sd_file n = None \<and> sd_open_ok e \<longrightarrow>
        sd_file (write_each e (d # ds) n) = Some (map Row (d # ds))"
    using write_each_existing [of e "writeToSDCard e (n\<lparr>currentData := d\<rparr>)" "[Row d]" ds]
    by (simp add: writeToSDCard_def)
  from loop_headers 1 2 3 show ?thesis by blast
qed

text \<open>
  The theorem for a card that fails to start at power-up and opens later.
\<close>

theorem C10_header_only_at_boot_witness:
  "setup_node ((env_at 0)\<lparr>sd_begin_ok := False\<rparr>) (boot None)
     = Some ((boot None)\<lparr>console := [''Warning: SD Card not available. Data will not be logged.'']\<rparr>)
   \<and> sd_file ((boot None)\<lparr>console := [''Warning: SD Card not available. Data will not be logged.'']\<rparr>) = None
   \<and> sd_file (writeToSDCard (env_at 10000)
        ((boot None)\<lparr>console := [''Warning: SD Card not available. Data will not be logged.'']\<rparr>))
      = Some [Row (currentData (boot None))]"
proof -
  let ?n0 = "(boot None)\<lparr>console := [''Warning: SD Card not available. Data will not be logged.'']\<rparr>"
  have a: "setup_node ((env_at 0)\<lparr>sd_begin_ok := False\<rparr>) (boot None) = Some ?n0"
    by (simp add: setup_node_def env_at_def boot_def)
  have b: "sd_open_ok (env_at 10000)"
    by (simp add: env_at_def)
  have c: "currentData ?n0 = currentData (boot None)" "sd_file (boot None) = None"
    by (simp_all add: boot_def)
  show ?thesis
    using C10_header_only_at_boot [of "(env_at 0)\<lparr>sd_begin_ok := False\<rparr>" "boot None" ?n0]
      C10_header_only_at_boot [of "env_at 10000" ?n0] a b c
    by simp
qed

end
